theory Spec2Isabelle
  imports Main
begin

section \<open>The session registry of http-server.ts\<close>

text \<open>
  The file \<^verbatim>\<open>src/http-server.ts\<close> keeps one JavaScript object, \<^verbatim>\<open>transports\<close>, that maps
  session ids to transport objects, and three handlers on \<^verbatim>\<open>/mcp\<close> that consult it.
  Transport objects are created by \<^verbatim>\<open>new StreamableHTTPServerTransport\<close>; they are modelled
  by their identity (the position in the list of objects constructed so far) and by the one
  field the source reads, \<^verbatim>\<open>sessionId\<close>.
\<close>

type_synonym tid = nat

record transport =
  sessionId :: "string option"

text \<open>
  The own properties of \<^verbatim>\<open>transports\<close>. The object is created by the literal \<^verbatim>\<open>{}\<close>, so a
  read \<^verbatim>\<open>transports[k]\<close> that finds no own property continues in \<^verbatim>\<open>Object.prototype\<close>.
\<close>

type_synonym registry = "string \<rightharpoonup> tid"

datatype jsval = Undefined | Transport tid | Inherited

fun truthy :: "jsval \<Rightarrow> bool" where
  "truthy Undefined = False"
| "truthy (Transport t) = True"
| "truthy Inherited = True"

definition object_prototype_keys :: "string list" where
  "object_prototype_keys =
     [''constructor'', ''__defineGetter__'', ''__defineSetter__'', ''hasOwnProperty'',
      ''__lookupGetter__'', ''__lookupSetter__'', ''isPrototypeOf'',
      ''propertyIsEnumerable'', ''toString'', ''valueOf'', ''__proto__'',
      ''toLocaleString'']"

definition js_get :: "registry \<Rightarrow> string \<Rightarrow> jsval" where
  "js_get r k =
     (case r k of
        Some t \<Rightarrow> Transport t
      | None \<Rightarrow> if k \<in> set object_prototype_keys then Inherited else Undefined)"

text \<open>Truthiness of the header value \<^verbatim>\<open>req.headers['mcp-session-id']\<close>: a string or undefined.\<close>

definition truthy_str :: "string option \<Rightarrow> bool" where
  "truthy_str h = (case h of None \<Rightarrow> False | Some s \<Rightarrow> s \<noteq> [])"

record server_state =
  transports :: registry
  created :: "transport list"

definition initial_state :: server_state where
  "initial_state = \<lparr>transports = Map.empty, created = []\<rparr>"

subsection \<open>Responses\<close>

datatype json = JNull | JNum int | JStr string | JArr "json list" | JObj "(string \<times> json) list"

datatype response = StatusJson nat json | StatusSend nat string

datatype js_error = TypeError | ConnectRejected

text \<open>
  What a handler does with the request: it hands it to \<^verbatim>\<open>transport.handleRequest\<close> of a
  transport object, it writes a response itself, or it throws.
\<close>

datatype outcome = HandleRequest tid | Responded response | Threw js_error

text \<open>The two messages of the source, as the UTF-8 bytes of the string literals.\<close>

definition post_reject_message :: string where
  "post_reject_message =
     [CHR 0xE9, CHR 0x8C, CHR 0xAF, CHR 0xE8, CHR 0xAA, CHR 0xA4, CHR 0xE8, CHR 0xAB, CHR 0x8B,
      CHR 0xE6, CHR 0xB1, CHR 0x82, CHR 0xEF, CHR 0xBC, CHR 0x9A, CHR 0xE6, CHR 0x9C, CHR 0xAA,
      CHR 0xE6, CHR 0x8F, CHR 0x90, CHR 0xE4, CHR 0xBE, CHR 0x9B, CHR 0xE6, CHR 0x9C, CHR 0x89,
      CHR 0xE6, CHR 0x95, CHR 0x88, CHR 0xE7, CHR 0x9A, CHR 0x84, CHR 0xE6, CHR 0x9C, CHR 0x83,
      CHR 0xE8, CHR 0xA9, CHR 0xB1, CHR 0x20, CHR 0x49, CHR 0x44]"

definition session_reject_message :: string where
  "session_reject_message =
     [CHR 0xE7, CHR 0x84, CHR 0xA1, CHR 0xE6, CHR 0x95, CHR 0x88, CHR 0xE6, CHR 0x88, CHR 0x96,
      CHR 0xE7, CHR 0xBC, CHR 0xBA, CHR 0xE5, CHR 0xB0, CHR 0x91, CHR 0xE6, CHR 0x9C, CHR 0x83,
      CHR 0xE8, CHR 0xA9, CHR 0xB1, CHR 0x20, CHR 0x49, CHR 0x44]"

definition rejection_body :: json where
  "rejection_body =
     JObj [(''jsonrpc'', JStr ''2.0''),
           (''error'', JObj [(''code'', JNum (- 32000)), (''message'', JStr post_reject_message)]),
           (''id'', JNull)]"

subsection \<open>The POST handler\<close>

text \<open>
  \<^verbatim>\<open>app.post('/mcp', ...)\<close>. The arguments are the value of the header, the result of
  \<^verbatim>\<open>isInitializeRequest(req.body)\<close> and whether \<^verbatim>\<open>await server.connect(transport)\<close>
  resolves. The first test is \<^verbatim>\<open>sessionId && transports[sessionId]\<close>; in that branch the
  value read from \<^verbatim>\<open>transports\<close> is used as the transport, and calling \<^verbatim>\<open>handleRequest\<close> on a
  member of \<^verbatim>\<open>Object.prototype\<close> throws a TypeError. The creation branch constructs the
  transport and installs the two callbacks; it does not write to \<^verbatim>\<open>transports\<close>.
\<close>

definition post_mcp ::
  "server_state \<Rightarrow> string option \<Rightarrow> bool \<Rightarrow> bool \<Rightarrow> server_state \<times> outcome" where
  "post_mcp st hdr isInitializeRequest connects =
     (let found = (case hdr of
                     None \<Rightarrow> Undefined
                   | Some s \<Rightarrow> if s = [] then Undefined else js_get (transports st) s)
      in if truthy found then
           (case found of
              Transport t \<Rightarrow> (st, HandleRequest t)
            | _ \<Rightarrow> (st, Threw TypeError))
         else if \<not> truthy_str hdr \<and> isInitializeRequest then
           (let t = length (created st);
                st' = st\<lparr>created := created st @ [\<lparr>sessionId = None\<rparr>]\<rparr>
            in if connects then (st', HandleRequest t) else (st', Threw ConnectRejected))
         else (st, Responded (StatusJson 400 rejection_body)))"

subsection \<open>The GET and DELETE handler\<close>

definition handleSessionRequest :: "server_state \<Rightarrow> string option \<Rightarrow> server_state \<times> outcome" where
  "handleSessionRequest st hdr =
     (case hdr of
        None \<Rightarrow> (st, Responded (StatusSend 400 session_reject_message))
      | Some s \<Rightarrow>
          if s = [] \<or> \<not> truthy (js_get (transports st) s)
          then (st, Responded (StatusSend 400 session_reject_message))
          else (case js_get (transports st) s of
                  Transport t \<Rightarrow> (st, HandleRequest t)
                | _ \<Rightarrow> (st, Threw TypeError)))"

subsection \<open>The callbacks installed on a new transport\<close>

text \<open>
  \<^verbatim>\<open>onsessioninitialized: (newSessionId) => { transports[newSessionId] = transport; }\<close>
  where \<^verbatim>\<open>transport\<close> is the object constructed in the same branch. An assignment to
  any key other than \<^verbatim>\<open>__proto__\<close> creates or overwrites an own property; the keys that
  reach the callback come from \<^verbatim>\<open>randomUUID\<close>.
\<close>

definition onsessioninitialized :: "tid \<Rightarrow> string \<Rightarrow> registry \<Rightarrow> registry" where
  "onsessioninitialized t newSessionId r = r(newSessionId \<mapsto> t)"

text \<open>
  \<^verbatim>\<open>transport.onclose = () => { if (transport.sessionId) delete transports[transport.sessionId]; }\<close>
  The argument is the value of \<^verbatim>\<open>transport.sessionId\<close> when the callback runs.
\<close>

definition onclose :: "string option \<Rightarrow> registry \<Rightarrow> registry" where
  "onclose sid r = (case sid of None \<Rightarrow> r | Some s \<Rightarrow> if s = [] then r else r(s := None))"

subsection \<open>The environment: the transport library\<close>

text \<open>
  The transport class is a library, not part of the repository. What the handlers rely on is
  taken from the construction site: the library obtains a session id from
  \<^verbatim>\<open>sessionIdGenerator\<close>, which is \<^verbatim>\<open>() => randomUUID()\<close>, stores it in \<^verbatim>\<open>transport.sessionId\<close>
  and calls \<^verbatim>\<open>onsessioninitialized\<close> with it, once per transport; and it calls \<^verbatim>\<open>onclose\<close>
  when the transport closes. \<^verbatim>\<open>randomUUID\<close> returns 36 characters: groups of 8, 4, 4, 4 and
  12 lower-case hexadecimal digits separated by hyphens.
\<close>

definition hex_digit :: "char \<Rightarrow> bool" where
  "hex_digit c = (c \<in> set ''0123456789abcdef'')"

fun uuid_groups :: "nat list \<Rightarrow> string \<Rightarrow> bool" where
  "uuid_groups [] s = (s = [])"
| "uuid_groups [n] s = (length s = n \<and> list_all hex_digit s)"
| "uuid_groups (n # m # ns) s =
     (length (take n s) = n \<and> list_all hex_digit (take n s) \<and>
      (case drop n s of
         [] \<Rightarrow> False
       | c # rest \<Rightarrow> c = CHR ''-'' \<and> uuid_groups (m # ns) rest))"

definition is_uuid :: "string \<Rightarrow> bool" where
  "is_uuid s = uuid_groups [8, 4, 4, 4, 12] s"

text \<open>The two callbacks, run on the state: the closure variable \<^verbatim>\<open>transport\<close> is object \<open>t\<close>.\<close>

definition session_initialized :: "tid \<Rightarrow> string \<Rightarrow> server_state \<Rightarrow> server_state" where
  "session_initialized t newSessionId st =
     st\<lparr>created := (created st)[t := (created st ! t)\<lparr>sessionId := Some newSessionId\<rparr>],
        transports := onsessioninitialized t newSessionId (transports st)\<rparr>"

definition transport_closed :: "tid \<Rightarrow> server_state \<Rightarrow> server_state" where
  "transport_closed t st =
     st\<lparr>transports := onclose (sessionId (created st ! t)) (transports st)\<rparr>"

datatype event =
    Post "string option" bool bool
  | Get "string option"
  | Delete "string option"
  | SessionInitialized tid string
  | Closed tid

text \<open>
  One step of the server. A request is always possible. The library confirms an id only for
  a transport that was constructed and has no id yet, and the id is a UUID that no transport
  constructed so far carries (the generator is taken to return fresh values); a closure is
  signalled only by a constructed transport. What a transport does with a request handed to
  it (confirming its id on initialization, closing on DELETE) shows as these two events.
  A step that is not possible is \<open>None\<close>.
\<close>

definition step :: "server_state \<Rightarrow> event \<Rightarrow> server_state option" where
  "step st e =
     (case e of
        Post hdr b c \<Rightarrow> Some (fst (post_mcp st hdr b c))
      | Get hdr \<Rightarrow> Some (fst (handleSessionRequest st hdr))
      | Delete hdr \<Rightarrow> Some (fst (handleSessionRequest st hdr))
      | SessionInitialized t newSessionId \<Rightarrow>
          if t < length (created st) \<and> sessionId (created st ! t) = None
             \<and> is_uuid newSessionId
             \<and> Some newSessionId \<notin> set (map sessionId (created st))
          then Some (session_initialized t newSessionId st) else None
      | Closed t \<Rightarrow>
          if t < length (created st) then Some (transport_closed t st) else None)"

fun run :: "event list \<Rightarrow> server_state \<Rightarrow> server_state option" where
  "run [] st = Some st"
| "run (e # es) st = (case step st e of None \<Rightarrow> None | Some st' \<Rightarrow> run es st')"

subsection \<open>The health endpoint\<close>

text \<open>
  \<^verbatim>\<open>app.get('/health', ...)\<close> reads \<^verbatim>\<open>os.networkInterfaces()\<close> (a dictionary from interface
  names to arrays that may be undefined, here in key order), \<^verbatim>\<open>os.hostname()\<close>, the current
  date and the \<^verbatim>\<open>port\<close> argument of \<^verbatim>\<open>setupHttpServer\<close>. \<^verbatim>\<open>Date.prototype.toISOString\<close>
  belongs to the language; it is a parameter.
\<close>

record network_interface_info =
  address :: string
  family :: string
  internal :: bool

record host =
  networkInterfaces :: "(string \<times> network_interface_info list option) list"
  hostname :: string
  now :: int

fun push_interfaces :: "network_interface_info list \<Rightarrow> string list \<Rightarrow> string list" where
  "push_interfaces [] addresses = addresses"
| "push_interfaces (iface # rest) addresses =
     push_interfaces rest
       (if family iface = ''IPv4'' \<and> \<not> internal iface then addresses @ [address iface]
        else addresses)"

fun collect_addresses ::
  "(string \<times> network_interface_info list option) list \<Rightarrow> string list \<Rightarrow> string list" where
  "collect_addresses [] addresses = addresses"
| "collect_addresses ((ifname, interfaces) # rest) addresses =
     collect_addresses rest
       (case interfaces of None \<Rightarrow> addresses | Some ifaces \<Rightarrow> push_interfaces ifaces addresses)"

definition health ::
  "int \<Rightarrow> (int \<Rightarrow> string) \<Rightarrow> host \<Rightarrow> server_state \<Rightarrow> server_state \<times> outcome" where
  "health port toISOString h st =
     (st, Responded (StatusJson 200
        (JObj [(''status'', JStr ''ok''),
               (''serverTime'', JStr (toISOString (now h))),
               (''networkAddresses'', JArr (map JStr (collect_addresses (networkInterfaces h) []))),
               (''hostname'', JStr (hostname h)),
               (''port'', JNum port)])))"

subsection \<open>The admission table as the specification words it\<close>

text \<open>
  For comparison with \<open>post_mcp\<close>: header present and an entry for it, reuse; else header
  absent and an initialization body, create; else reject.
\<close>

datatype decision = Reuse tid | Create | Reject

definition admission_as_specified :: "registry \<Rightarrow> string option \<Rightarrow> bool \<Rightarrow> decision" where
  "admission_as_specified r hdr isInitializeRequest =
     (case hdr of
        Some s \<Rightarrow> (case r s of Some t \<Rightarrow> Reuse t | None \<Rightarrow> Reject)
      | None \<Rightarrow> if isInitializeRequest then Create else Reject)"

subsection \<open>The invariant of the registry\<close>

text \<open>
  After a run \<open>evs\<close>: every entry of the registry was written by the completion callback of
  the transport it holds, under the UUID that transport carries; and no two transports
  carry the same id.
\<close>

definition registry_inv :: "event list \<Rightarrow> server_state \<Rightarrow> bool" where
  "registry_inv evs st \<longleftrightarrow>
     (\<forall>k t. transports st k = Some t \<longrightarrow>
        SessionInitialized t k \<in> set evs \<and> is_uuid k \<and> t < length (created st)
        \<and> sessionId (created st ! t) = Some k)
     \<and> (\<forall>t1 t2 s. t1 < length (created st) \<and> t2 < length (created st)
            \<and> sessionId (created st ! t1) = Some s \<and> sessionId (created st ! t2) = Some s
          \<longrightarrow> t1 = t2)"

section \<open>Theorems\<close>

subsection \<open>Helper lemmas\<close>

lemma truthy_str_simps:
  "truthy_str None = False" "truthy_str (Some s) = (s \<noteq> [])"
  by (simp_all add: truthy_str_def)

lemma uuid_groups_length: "uuid_groups ns s \<Longrightarrow> length s = sum_list ns + (length ns - 1)"
proof (induction ns s rule: uuid_groups.induct)
  case (1 s)
  then show ?case by simp
next
  case (2 n s)
  then show ?case by simp
next
  case (3 n m ns s)
  show ?case
  proof (cases "drop n s")
    case Nil
    with "3.prems" show ?thesis by simp
  next
    case (Cons c rest)
    with "3.prems" have u: "uuid_groups (m # ns) rest" and l: "length (take n s) = n"
      by simp_all
    from "3.IH"[OF Cons u] have "length rest = sum_list (m # ns) + (length (m # ns) - 1)" .
    moreover have "length s = length (take n s) + length (drop n s)"
      by (simp only: length_append[symmetric] append_take_drop_id)
    ultimately show ?thesis using Cons l by simp
  qed
qed

lemma is_uuid_length: "is_uuid s \<Longrightarrow> length s = 36"
proof -
  assume "is_uuid s"
  then have "uuid_groups [8, 4, 4, 4, 12] s" by (simp only: is_uuid_def)
  then have "length s = sum_list [8, 4, 4, 4, 12] + (length [8, 4, 4, 4, 12 :: nat] - 1)"
    by (rule uuid_groups_length)
  then show ?thesis by simp
qed

lemma is_uuid_not_inherited: "is_uuid s \<Longrightarrow> s \<noteq> [] \<and> s \<notin> set object_prototype_keys"
proof
  assume u: "is_uuid s"
  then have l: "length s = 36" by (rule is_uuid_length)
  then show "s \<noteq> []" by auto
  have "list_all (\<lambda>k. length k < 36) object_prototype_keys"
    by (simp add: object_prototype_keys_def)
  with l show "s \<notin> set object_prototype_keys" by (auto simp: list_all_iff)
qed

lemma push_interfaces_eq:
  "push_interfaces ifaces acc = acc @ map address (filter (\<lambda>i. family i = ''IPv4'' \<and> \<not> internal i) ifaces)"
  by (induction ifaces arbitrary: acc) auto

lemma collect_addresses_eq:
  "collect_addresses nis acc = acc @ map address (filter (\<lambda>i. family i = ''IPv4'' \<and> \<not> internal i)
      (concat (map (\<lambda>(ifname, interfaces). case interfaces of None \<Rightarrow> [] | Some ifaces \<Rightarrow> ifaces) nis)))"
  by (induction nis acc rule: collect_addresses.induct) (auto simp: push_interfaces_eq split: option.splits)

lemma js_get_own: "r k = Some t \<Longrightarrow> js_get r k = Transport t"
  by (simp add: js_get_def)

lemma js_get_unknown: "r k = None \<Longrightarrow> k \<notin> set object_prototype_keys \<Longrightarrow> js_get r k = Undefined"
  by (simp add: js_get_def)

lemma js_get_inherited: "r k = None \<Longrightarrow> k \<in> set object_prototype_keys \<Longrightarrow> js_get r k = Inherited"
  by (simp add: js_get_def)

lemma post_mcp_reuse:
  "s \<noteq> [] \<Longrightarrow> transports st s = Some t \<Longrightarrow> post_mcp st (Some s) b c = (st, HandleRequest t)"
  by (simp add: post_mcp_def js_get_own)

lemma post_mcp_create:
  "\<not> truthy_str hdr \<Longrightarrow>
   post_mcp st hdr True c =
     (st\<lparr>created := created st @ [\<lparr>sessionId = None\<rparr>]\<rparr>,
      if c then HandleRequest (length (created st)) else Threw ConnectRejected)"
  by (cases hdr) (simp_all add: post_mcp_def truthy_str_simps Let_def)

lemma post_mcp_reject_unknown:
  "s \<noteq> [] \<Longrightarrow> transports st s = None \<Longrightarrow> s \<notin> set object_prototype_keys \<Longrightarrow>
   post_mcp st (Some s) b c = (st, Responded (StatusJson 400 rejection_body))"
  by (simp add: post_mcp_def js_get_unknown truthy_str_simps)

lemma post_mcp_reject_not_init:
  "\<not> truthy_str hdr \<Longrightarrow> post_mcp st hdr False c = (st, Responded (StatusJson 400 rejection_body))"
  by (cases hdr) (simp_all add: post_mcp_def truthy_str_simps)

lemma post_mcp_inherited:
  "s \<noteq> [] \<Longrightarrow> transports st s = None \<Longrightarrow> s \<in> set object_prototype_keys \<Longrightarrow>
   post_mcp st (Some s) b c = (st, Threw TypeError)"
  by (simp add: post_mcp_def js_get_inherited)

lemma post_mcp_registry: "transports (fst (post_mcp st hdr b c)) = transports st"
  by (simp add: post_mcp_def Let_def split: jsval.splits)

lemma post_mcp_responded: "snd (post_mcp st hdr b c) = Responded r \<Longrightarrow> post_mcp st hdr b c = (st, Responded (StatusJson 400 rejection_body))"
  by (simp add: post_mcp_def Let_def split: jsval.splits if_splits)

lemma handleSessionRequest_state: "fst (handleSessionRequest st hdr) = st"
  by (simp add: handleSessionRequest_def split: option.splits jsval.splits)

lemma handleSessionRequest_found:
  "s \<noteq> [] \<Longrightarrow> transports st s = Some t \<Longrightarrow> handleSessionRequest st (Some s) = (st, HandleRequest t)"
  by (simp add: handleSessionRequest_def js_get_own)

lemma handleSessionRequest_unknown:
  "transports st s = None \<Longrightarrow> s \<notin> set object_prototype_keys \<Longrightarrow>
   handleSessionRequest st (Some s) = (st, Responded (StatusSend 400 session_reject_message))"
  by (simp add: handleSessionRequest_def js_get_unknown)

lemma handleSessionRequest_missing:
  "\<not> truthy_str hdr \<Longrightarrow>
   handleSessionRequest st hdr = (st, Responded (StatusSend 400 session_reject_message))"
  by (cases hdr) (simp_all add: handleSessionRequest_def truthy_str_simps)

lemma handleSessionRequest_inherited:
  "transports st s = None \<Longrightarrow> s \<in> set object_prototype_keys \<Longrightarrow>
   handleSessionRequest st (Some s) = (st, Threw TypeError)"
proof -
  assume a: "transports st s = None" "s \<in> set object_prototype_keys"
  have "list_all (\<lambda>k. k \<noteq> []) object_prototype_keys" by (simp add: object_prototype_keys_def)
  with a have "s \<noteq> []" by (auto simp: list_all_iff)
  with a show ?thesis by (simp add: handleSessionRequest_def js_get_inherited)
qed

lemma post_mcp_created:
  "created (fst (post_mcp st hdr b c)) = created st
   \<or> created (fst (post_mcp st hdr b c)) = created st @ [\<lparr>sessionId = None\<rparr>]"
  by (simp add: post_mcp_def Let_def split: jsval.splits)

lemma run_snoc:
  "run (evs @ [e]) st = (case run evs st of None \<Rightarrow> None | Some st' \<Rightarrow> step st' e)"
  by (induction evs arbitrary: st) (auto split: option.splits)

lemma registry_inv_mono: "registry_inv evs st \<Longrightarrow> registry_inv (evs @ [e]) st"
  by (simp add: registry_inv_def)

lemma registry_inv_append:
  assumes inv: "registry_inv evs st"
    and tr: "transports st' = transports st"
    and cr: "created st' = created st @ [\<lparr>sessionId = None\<rparr>]"
  shows "registry_inv evs st'"
  unfolding registry_inv_def
proof (rule conjI; intro allI impI)
  fix k t assume "transports st' k = Some t"
  with tr inv have a: "SessionInitialized t k \<in> set evs" "is_uuid k" "t < length (created st)"
    "sessionId (created st ! t) = Some k"
    by (simp_all add: registry_inv_def)
  then show "SessionInitialized t k \<in> set evs \<and> is_uuid k \<and> t < length (created st')
        \<and> sessionId (created st' ! t) = Some k"
    by (simp add: cr nth_append)
next
  fix t1 t2 s
  assume h: "t1 < length (created st') \<and> t2 < length (created st')
            \<and> sessionId (created st' ! t1) = Some s \<and> sessionId (created st' ! t2) = Some s"
  have old: "t < length (created st)" if "t < length (created st')" "sessionId (created st' ! t) = Some s" for t
  proof (rule ccontr)
    assume "\<not> t < length (created st)"
    with that(1) have "t = length (created st)" by (simp add: cr)
    with that(2) show False by (simp add: cr)
  qed
  from h have o1: "t1 < length (created st)" and o2: "t2 < length (created st)"
    using old by blast+
  with h have "sessionId (created st ! t1) = Some s" "sessionId (created st ! t2) = Some s"
    by (simp_all add: cr nth_append)
  with o1 o2 inv show "t1 = t2" unfolding registry_inv_def by blast
qed

lemma registry_inv_same:
  "registry_inv evs st \<Longrightarrow> transports st' = transports st \<Longrightarrow> created st' = created st \<Longrightarrow>
   registry_inv evs st'"
  by (simp add: registry_inv_def)

lemma registry_inv_post: "registry_inv evs st \<Longrightarrow> registry_inv evs (fst (post_mcp st hdr b c))"
  using post_mcp_created[of st hdr b c] post_mcp_registry[of st hdr b c]
  by (blast intro: registry_inv_append registry_inv_same)

lemma registry_inv_closed:
  assumes inv: "registry_inv evs st"
  shows "registry_inv evs (transport_closed t st)"
proof -
  have sub: "transports (transport_closed t st) k = Some u \<Longrightarrow> transports st k = Some u" for k u
    by (auto simp: transport_closed_def onclose_def split: option.splits if_splits)
  have cr: "created (transport_closed t st) = created st"
    by (simp add: transport_closed_def)
  show ?thesis
    unfolding registry_inv_def cr
    using inv sub unfolding registry_inv_def by blast
qed

lemma registry_inv_initialized:
  assumes inv: "registry_inv evs st"
    and t: "t < length (created st)"
    and unset: "sessionId (created st ! t) = None"
    and uuid: "is_uuid k"
    and fresh: "Some k \<notin> set (map sessionId (created st))"
  shows "registry_inv (evs @ [SessionInitialized t k]) (session_initialized t k st)"
proof -
  let ?st' = "session_initialized t k st"
  have len: "length (created ?st') = length (created st)"
    by (simp add: session_initialized_def)
  have at_t: "sessionId (created ?st' ! t) = Some k"
    using t by (simp add: session_initialized_def)
  have other: "created ?st' ! u = created st ! u" if "u \<noteq> t" for u
    using that by (simp add: session_initialized_def)
  have tr: "transports ?st' = (transports st)(k \<mapsto> t)"
    by (simp add: session_initialized_def onsessioninitialized_def)
  have nofresh: "sessionId (created st ! u) \<noteq> Some k" if "u < length (created st)" for u
    using fresh that by (metis length_map nth_map nth_mem)
  show ?thesis
    unfolding registry_inv_def
  proof (rule conjI; intro allI impI)
    fix k' t' assume e: "transports ?st' k' = Some t'"
    show "SessionInitialized t' k' \<in> set (evs @ [SessionInitialized t k]) \<and> is_uuid k'
          \<and> t' < length (created ?st') \<and> sessionId (created ?st' ! t') = Some k'"
    proof (cases "k' = k")
      case True
      with e tr have "t' = t" by simp
      with True uuid t at_t len show ?thesis by simp
    next
      case False
      with e tr have old: "transports st k' = Some t'" by simp
      with inv have a: "SessionInitialized t' k' \<in> set evs" "is_uuid k'"
        "t' < length (created st)" "sessionId (created st ! t') = Some k'"
        unfolding registry_inv_def by blast+
      from a(4) unset have "t' \<noteq> t" by auto
      with a other len show ?thesis by simp
    qed
  next
    fix t1 t2 s
    assume h: "t1 < length (created ?st') \<and> t2 < length (created ?st')
            \<and> sessionId (created ?st' ! t1) = Some s \<and> sessionId (created ?st' ! t2) = Some s"
    show "t1 = t2"
    proof (cases "t1 = t")
      case t1: True
      with h at_t have s: "s = k" by simp
      show ?thesis
      proof (rule ccontr)
        assume "t1 \<noteq> t2"
        with t1 have "t2 \<noteq> t" by simp
        with h other s have "sessionId (created st ! t2) = Some k" by simp
        with nofresh h len show False by simp
      qed
    next
      case t1: False
      show ?thesis
      proof (cases "t2 = t")
        case True
        with h at_t have s: "s = k" by simp
        with h other t1 have "sessionId (created st ! t1) = Some k" by simp
        with nofresh h len show ?thesis by simp
      next
        case False
        with t1 h other len have "t1 < length (created st) \<and> t2 < length (created st)
            \<and> sessionId (created st ! t1) = Some s \<and> sessionId (created st ! t2) = Some s"
          by simp
        with inv show ?thesis unfolding registry_inv_def by blast
      qed
    qed
  qed
qed

lemma registry_inv_step:
  assumes inv: "registry_inv evs st" and st: "step st e = Some st'"
  shows "registry_inv (evs @ [e]) st'"
proof (cases e)
  case (Post hdr b c)
  with st have "st' = fst (post_mcp st hdr b c)" by (simp add: step_def)
  with inv show ?thesis by (simp add: registry_inv_post registry_inv_mono)
next
  case (Get hdr)
  with st have "st' = st" by (simp add: step_def handleSessionRequest_state)
  with inv show ?thesis by (simp add: registry_inv_mono)
next
  case (Delete hdr)
  with st have "st' = st" by (simp add: step_def handleSessionRequest_state)
  with inv show ?thesis by (simp add: registry_inv_mono)
next
  case (SessionInitialized t k)
  with st have g: "t < length (created st)" "sessionId (created st ! t) = None" "is_uuid k"
      "Some k \<notin> set (map sessionId (created st))" and eq: "st' = session_initialized t k st"
    by (simp_all add: step_def split: if_splits)
  from registry_inv_initialized[OF inv g] show ?thesis
    by (simp only: SessionInitialized eq)
next
  case (Closed t)
  with st have "st' = transport_closed t st" by (simp add: step_def split: if_splits)
  with inv show ?thesis by (simp add: registry_inv_closed registry_inv_mono)
qed

lemma registry_inv_initial: "registry_inv [] initial_state"
  by (simp add: registry_inv_def initial_state_def)

lemma registry_inv_run: "run evs initial_state = Some st \<Longrightarrow> registry_inv evs st"
proof (induction evs arbitrary: st rule: rev_induct)
  case Nil
  then show ?case by (simp add: registry_inv_initial)
next
  case (snoc e evs)
  from snoc.prems obtain st0 where r: "run evs initial_state = Some st0" and s: "step st0 e = Some st"
    by (auto simp: run_snoc split: option.splits)
  from snoc.IH[OF r] s show ?case by (rule registry_inv_step)
qed

lemma uuid_a: "is_uuid ''123e4567-e89b-42d3-a456-426614174000''"
  by (simp add: is_uuid_def hex_digit_def)

lemma uuid_b: "is_uuid ''9b2f0c1e-7d4a-4c3b-8e21-0a1b2c3d4e5f''"
  by (simp add: is_uuid_def hex_digit_def)

lemma transport_closed_unset: "sessionId (created st ! t) = None \<Longrightarrow> transport_closed t st = st"
  by (simp add: transport_closed_def onclose_def)

lemma transport_closed_set:
  "sessionId (created st ! t) = Some s \<Longrightarrow> s \<noteq> [] \<Longrightarrow>
   transport_closed t st = st\<lparr>transports := (transports st)(s := None)\<rparr>"
  by (simp add: transport_closed_def onclose_def)

subsection \<open>The claims\<close>

text \<open>
  C1, as the code has it. For every POST on \<^verbatim>\<open>/mcp\<close> the admission decision is taken in order.
  If the header carries a non-empty value and the registry has an entry for it, that transport
  is reused: the request is handed to it and the state is unchanged, so no entry and no
  transport is created. Otherwise, if the header is absent or empty and the body is an
  initialization message, a new transport is constructed (and the request handed to it when
  the connection to the server succeeds). Otherwise the request is rejected with the 400
  response, when the header is absent or empty, or when its value has no entry and is not the
  name of a member of \<^verbatim>\<open>Object.prototype\<close>.
\<close>

theorem admission_first_match:
  "(s \<noteq> [] \<and> transports st s = Some t \<longrightarrow> post_mcp st (Some s) b c = (st, HandleRequest t))
   \<and> (\<not> truthy_str hdr \<and> b \<longrightarrow>
        post_mcp st hdr b c =
          (st\<lparr>created := created st @ [\<lparr>sessionId = None\<rparr>]\<rparr>,
           if c then HandleRequest (length (created st)) else Threw ConnectRejected))
   \<and> ((\<not> truthy_str hdr \<and> \<not> b)
        \<or> (hdr = Some s \<and> s \<noteq> [] \<and> transports st s = None \<and> s \<notin> set object_prototype_keys)
      \<longrightarrow> post_mcp st hdr b c = (st, Responded (StatusJson 400 rejection_body)))"
proof (intro conjI impI)
  assume "s \<noteq> [] \<and> transports st s = Some t"
  then show "post_mcp st (Some s) b c = (st, HandleRequest t)"
    by (simp add: post_mcp_reuse)
next
  assume "\<not> truthy_str hdr \<and> b"
  then show "post_mcp st hdr b c =
          (st\<lparr>created := created st @ [\<lparr>sessionId = None\<rparr>]\<rparr>,
           if c then HandleRequest (length (created st)) else Threw ConnectRejected)"
    using post_mcp_create[of hdr st c] by simp
next
  assume "(\<not> truthy_str hdr \<and> \<not> b)
        \<or> (hdr = Some s \<and> s \<noteq> [] \<and> transports st s = None \<and> s \<notin> set object_prototype_keys)"
  then show "post_mcp st hdr b c = (st, Responded (StatusJson 400 rejection_body))"
  proof
    assume "\<not> truthy_str hdr \<and> \<not> b"
    then show ?thesis using post_mcp_reject_not_init[of hdr st c] by simp
  next
    assume "hdr = Some s \<and> s \<noteq> [] \<and> transports st s = None \<and> s \<notin> set object_prototype_keys"
    then show ?thesis by (simp add: post_mcp_reject_unknown)
  qed
qed

text \<open>
  The three branches at concrete requests: a known session id, no header with an
  initialization body, and an unknown id.
\<close>

theorem admission_first_match_witness:
  "post_mcp \<lparr>transports = [''123e4567-e89b-42d3-a456-426614174000'' \<mapsto> 0],
             created = [\<lparr>sessionId = Some ''123e4567-e89b-42d3-a456-426614174000''\<rparr>]\<rparr>
      (Some ''123e4567-e89b-42d3-a456-426614174000'') False True
    = (\<lparr>transports = [''123e4567-e89b-42d3-a456-426614174000'' \<mapsto> 0],
        created = [\<lparr>sessionId = Some ''123e4567-e89b-42d3-a456-426614174000''\<rparr>]\<rparr>, HandleRequest 0)
   \<and> post_mcp initial_state None True True
        = (initial_state\<lparr>created := [\<lparr>sessionId = None\<rparr>]\<rparr>, HandleRequest 0)
   \<and> post_mcp initial_state (Some ''abc'') True True
        = (initial_state, Responded (StatusJson 400 rejection_body))"
proof -
  let ?a = "''123e4567-e89b-42d3-a456-426614174000''"
  let ?st = "\<lparr>transports = [?a \<mapsto> 0], created = [\<lparr>sessionId = Some ?a\<rparr>]\<rparr>"
  have 1: "post_mcp ?st (Some ?a) False True = (?st, HandleRequest 0)"
    using admission_first_match[where s = ?a and st = ?st and t = 0 and b = False and c = True]
    by simp
  have 2: "post_mcp initial_state None True True
        = (initial_state\<lparr>created := [\<lparr>sessionId = None\<rparr>]\<rparr>, HandleRequest 0)"
    using admission_first_match[where hdr = None and st = initial_state and b = True and c = True]
    by (simp add: truthy_str_simps initial_state_def)
  have k: "''abc'' \<notin> set object_prototype_keys"
    by (simp add: object_prototype_keys_def)
  have 3: "post_mcp initial_state (Some ''abc'') True True
        = (initial_state, Responded (StatusJson 400 rejection_body))"
    using k admission_first_match[where hdr = "Some ''abc''" and s = "''abc''"
        and st = initial_state and b = True and c = True]
    by (simp add: initial_state_def)
  from 1 2 3 show ?thesis by (simp only: simp_thms)
qed

text \<open>
  The table with "header present" and "header absent" read literally prescribes rejection
  for an empty header value with an initialization body; the handler constructs transport 0
  and hands the request to it.
\<close>

theorem admission_counterexample:
  "admission_as_specified (transports initial_state) (Some []) True = Reject
   \<and> post_mcp initial_state (Some []) True True
       = (initial_state\<lparr>created := [\<lparr>sessionId = None\<rparr>]\<rparr>, HandleRequest 0)"
  by (simp add: admission_as_specified_def post_mcp_def initial_state_def truthy_str_simps Let_def)

text \<open>
  C2, as the code has it. A POST on \<^verbatim>\<open>/mcp\<close> whose header is absent or empty with a body that
  is not an initialization message, or whose header has a non-empty value without a registry
  entry that is not the name of a member of \<^verbatim>\<open>Object.prototype\<close>, is answered with status 400
  and the body \<^verbatim>\<open>{jsonrpc: "2.0", error: {code: -32000, message: ...}, id: null}\<close>; the state is
  unchanged and the request is handed to no transport.
\<close>

theorem rejection_response:
  assumes "(\<not> truthy_str hdr \<and> \<not> b)
     \<or> (\<exists>s. hdr = Some s \<and> s \<noteq> [] \<and> transports st s = None \<and> s \<notin> set object_prototype_keys)"
  shows "post_mcp st hdr b c =
           (st, Responded (StatusJson 400
              (JObj [(''jsonrpc'', JStr ''2.0''),
                     (''error'', JObj [(''code'', JNum (- 32000)),
                                       (''message'', JStr post_reject_message)]),
                     (''id'', JNull)])))
         \<and> (\<forall>t. snd (post_mcp st hdr b c) \<noteq> HandleRequest t)"
proof -
  from assms have "post_mcp st hdr b c = (st, Responded (StatusJson 400 rejection_body))"
    using post_mcp_reject_not_init[of hdr st c] post_mcp_reject_unknown[of _ st b c]
    by (cases b) auto
  then show ?thesis by (simp add: rejection_body_def)
qed

text \<open>
  Two rejected requests on a server without sessions: an unknown id, and no header with
  a body that is not an initialization message.
\<close>

theorem rejection_response_witness:
  "post_mcp initial_state (Some ''no-such-session'') False True =
           (initial_state, Responded (StatusJson 400
              (JObj [(''jsonrpc'', JStr ''2.0''),
                     (''error'', JObj [(''code'', JNum (- 32000)),
                                       (''message'', JStr post_reject_message)]),
                     (''id'', JNull)])))
   \<and> snd (post_mcp initial_state None False True) \<noteq> HandleRequest 0"
proof -
  have k: "''no-such-session'' \<notin> set object_prototype_keys"
    by (simp add: object_prototype_keys_def)
  then have h: "(\<not> truthy_str (Some ''no-such-session'') \<and> \<not> False)
     \<or> (\<exists>s. Some ''no-such-session'' = Some s \<and> s \<noteq> [] \<and> transports initial_state s = None
            \<and> s \<notin> set object_prototype_keys)"
    by (simp add: initial_state_def)
  have h2: "(\<not> truthy_str None \<and> \<not> False)
     \<or> (\<exists>s. None = Some s \<and> s \<noteq> [] \<and> transports initial_state s = None
            \<and> s \<notin> set object_prototype_keys)"
    by (simp add: truthy_str_simps)
  from rejection_response[OF h, of True] rejection_response[OF h2, of True]
  show ?thesis by simp
qed

text \<open>
  A header that is present, with the empty value, matches no registry entry; with an
  initialization body the handler does not answer 400 but hands the request to the new
  transport 0.
\<close>

theorem rejection_counterexample:
  "transports initial_state [] = None
   \<and> snd (post_mcp initial_state (Some []) True True) = HandleRequest 0
   \<and> snd (post_mcp initial_state (Some []) True True) \<noteq> Responded (StatusJson 400 rejection_body)"
  by (simp add: post_mcp_def initial_state_def truthy_str_simps Let_def)

text \<open>
  C3. A rejected request leaves the registry as it was. When the POST handler answers by
  itself (its rejection branch) the whole state is unchanged, and the POST handler never
  writes to the registry on any branch; a GET or DELETE with a missing header, or with a
  header value for which the registry has no entry, leaves the whole state unchanged.
\<close>

theorem rejected_requests_keep_registry:
  "(snd (post_mcp st hdr b c) = Responded r \<longrightarrow> fst (post_mcp st hdr b c) = st)
   \<and> transports (fst (post_mcp st hdr b c)) = transports st
   \<and> (hdr' = None \<or> (\<exists>s. hdr' = Some s \<and> transports st s = None)
        \<longrightarrow> fst (handleSessionRequest st hdr') = st
            \<and> transports (fst (handleSessionRequest st hdr')) = transports st)"
proof (intro conjI impI)
  assume "snd (post_mcp st hdr b c) = Responded r"
  then have "post_mcp st hdr b c = (st, Responded (StatusJson 400 rejection_body))"
    by (rule post_mcp_responded)
  then show "fst (post_mcp st hdr b c) = st" by simp
next
  show "transports (fst (post_mcp st hdr b c)) = transports st"
    by (rule post_mcp_registry)
next
  show "fst (handleSessionRequest st hdr') = st"
    by (rule handleSessionRequest_state)
next
  show "transports (fst (handleSessionRequest st hdr')) = transports st"
    by (simp add: handleSessionRequest_state)
qed

text \<open>
  A rejected POST, and a GET with an unknown and with a missing header, on the initial
  state.
\<close>

theorem rejected_requests_keep_registry_witness:
  "snd (post_mcp initial_state None False True) = Responded (StatusJson 400 rejection_body)
   \<and> fst (post_mcp initial_state None False True) = initial_state
   \<and> fst (handleSessionRequest initial_state (Some ''no-such-session'')) = initial_state
   \<and> fst (handleSessionRequest initial_state None) = initial_state"
proof -
  have r: "snd (post_mcp initial_state None False True) = Responded (StatusJson 400 rejection_body)"
    by (simp add: post_mcp_def truthy_str_simps)
  have u: "transports initial_state ''no-such-session'' = None"
    by (simp add: initial_state_def)
  from r u
    rejected_requests_keep_registry[where st = initial_state and hdr = None and b = False
      and c = True and r = "StatusJson 400 rejection_body" and hdr' = "Some ''no-such-session''"]
    rejected_requests_keep_registry[where st = initial_state and hdr = None and b = False
      and c = True and r = "StatusJson 400 rejection_body" and hdr' = None]
  show ?thesis by simp
qed

text \<open>
  C4. On GET and DELETE only the lookup applies (\<open>handleSessionRequest_found\<close>,
  \<open>handleSessionRequest_missing\<close>, \<open>handleSessionRequest_unknown\<close>, and the state is never
  changed, \<open>handleSessionRequest_state\<close>), but not every unknown header value is answered
  with the plain 400: for the value \<^verbatim>\<open>constructor\<close> on a server without sessions the test
  \<^verbatim>\<open>!transports[sessionId]\<close> is false, because the read finds \<^verbatim>\<open>Object.prototype.constructor\<close>,
  and the call of \<^verbatim>\<open>handleRequest\<close> on that value throws.
\<close>

theorem get_delete_inherited_key_throws:
  "handleSessionRequest initial_state (Some ''constructor'') = (initial_state, Threw TypeError)"
  by (simp add: handleSessionRequest_def js_get_def initial_state_def object_prototype_keys_def)

text \<open>
  C5. When a transport that carries the session id \<open>s\<close> signals closure, the registry has
  no entry for \<open>s\<close> afterwards (a read of \<^verbatim>\<open>transports[s]\<close> is undefined and a GET with \<open>s\<close> is
  answered with 400, for every \<open>s\<close> that is not the name of a member of \<^verbatim>\<open>Object.prototype\<close>);
  running the close handler a second time changes nothing; and when the id is already absent
  the handler changes nothing.
\<close>

theorem close_evicts_idempotent:
  assumes t: "t < length (created st)"
    and sid: "sessionId (created st ! t) = Some s"
    and ne: "s \<noteq> []"
  shows "transports (transport_closed t st) s = None
     \<and> (s \<notin> set object_prototype_keys \<longrightarrow>
          js_get (transports (transport_closed t st)) s = Undefined
          \<and> snd (handleSessionRequest (transport_closed t st) (Some s))
              = Responded (StatusSend 400 session_reject_message))
     \<and> transport_closed t (transport_closed t st) = transport_closed t st
     \<and> (transports st s = None \<longrightarrow> transport_closed t st = st)"
proof -
  let ?st' = "transport_closed t st"
  have eq: "?st' = st\<lparr>transports := (transports st)(s := None)\<rparr>"
    using sid ne by (rule transport_closed_set)
  have gone: "transports ?st' s = None" by (simp add: eq)
  have cr: "created ?st' = created st" by (simp add: eq)
  have again: "transport_closed t ?st' = ?st'"
  proof -
    from sid cr have "sessionId (created ?st' ! t) = Some s" by simp
    then have "transport_closed t ?st' = ?st'\<lparr>transports := (transports ?st')(s := None)\<rparr>"
      using ne by (rule transport_closed_set)
    also have "\<dots> = ?st'" by (simp add: eq)
    finally show ?thesis .
  qed
  have absent: "transport_closed t st = st" if "transports st s = None"
  proof -
    from that have "(transports st)(s := None) = transports st" by (rule fun_upd_idem)
    then show ?thesis by (simp add: eq)
  qed
  have look: "js_get (transports ?st') s = Undefined
      \<and> snd (handleSessionRequest ?st' (Some s)) = Responded (StatusSend 400 session_reject_message)"
    if "s \<notin> set object_prototype_keys"
    using gone that by (simp add: js_get_unknown handleSessionRequest_unknown)
  from gone again absent look show ?thesis by blast
qed

text \<open>
  Closing transport 0 of a registry that holds it, and of a registry that does not.
\<close>

theorem close_evicts_idempotent_witness:
  "transports (transport_closed 0
      \<lparr>transports = [''123e4567-e89b-42d3-a456-426614174000'' \<mapsto> 0],
       created = [\<lparr>sessionId = Some ''123e4567-e89b-42d3-a456-426614174000''\<rparr>]\<rparr>)
      ''123e4567-e89b-42d3-a456-426614174000'' = None
   \<and> js_get (transports (transport_closed 0
      \<lparr>transports = [''123e4567-e89b-42d3-a456-426614174000'' \<mapsto> 0],
       created = [\<lparr>sessionId = Some ''123e4567-e89b-42d3-a456-426614174000''\<rparr>]\<rparr>))
      ''123e4567-e89b-42d3-a456-426614174000'' = Undefined
   \<and> transport_closed 0 \<lparr>transports = Map.empty,
       created = [\<lparr>sessionId = Some ''123e4567-e89b-42d3-a456-426614174000''\<rparr>]\<rparr>
      = \<lparr>transports = Map.empty,
       created = [\<lparr>sessionId = Some ''123e4567-e89b-42d3-a456-426614174000''\<rparr>]\<rparr>"
proof -
  let ?a = "''123e4567-e89b-42d3-a456-426614174000''"
  let ?st = "\<lparr>transports = [?a \<mapsto> 0], created = [\<lparr>sessionId = Some ?a\<rparr>]\<rparr>"
  let ?st2 = "\<lparr>transports = (Map.empty :: registry), created = [\<lparr>sessionId = Some ?a\<rparr>]\<rparr>"
  have k: "?a \<notin> set object_prototype_keys"
    using is_uuid_not_inherited[OF uuid_a] by simp
  have 1: "0 < length (created ?st)" and 2: "sessionId (created ?st ! 0) = Some ?a"
    and 3: "?a \<noteq> []" by simp_all
  have 4: "0 < length (created ?st2)" and 5: "sessionId (created ?st2 ! 0) = Some ?a" by simp_all
  have 6: "transports ?st2 ?a = None" by simp
  from k close_evicts_idempotent[OF 1 2 3] 6 close_evicts_idempotent[OF 4 5 3]
  show ?thesis by blast
qed

text \<open>
  C6. The creation branch of the POST handler constructs the transport with an unset id
  and writes nothing to the registry. A step of the server that puts transport \<open>t\<close> under
  key \<open>k\<close> is the completion callback of \<open>t\<close> fired with \<open>k\<close>, and \<open>k\<close> is then the id the
  transport carries; the callback writes exactly the entry \<open>k \<mapsto> t\<close>.
\<close>

theorem entry_inserted_only_on_confirmation:
  "(\<not> truthy_str hdr \<longrightarrow>
      transports (fst (post_mcp st hdr True c)) = transports st
      \<and> created (fst (post_mcp st hdr True c)) = created st @ [\<lparr>sessionId = None\<rparr>])
   \<and> (step st e = Some st' \<and> transports st' k = Some t \<and> transports st k \<noteq> Some t \<longrightarrow>
        e = SessionInitialized t k \<and> sessionId (created st' ! t) = Some k)
   \<and> transports (session_initialized t k st) = (transports st)(k \<mapsto> t)"
proof (intro conjI impI)
  assume "\<not> truthy_str hdr"
  then show "created (fst (post_mcp st hdr True c)) = created st @ [\<lparr>sessionId = None\<rparr>]"
    by (simp add: post_mcp_create)
next
  show "transports (fst (post_mcp st hdr True c)) = transports st"
    by (rule post_mcp_registry)
next
  show "transports (session_initialized t k st) = (transports st)(k \<mapsto> t)"
    by (simp add: session_initialized_def onsessioninitialized_def)
next
  assume a: "step st e = Some st' \<and> transports st' k = Some t \<and> transports st k \<noteq> Some t"
  have "e = SessionInitialized t k \<and> sessionId (created st' ! t) = Some k"
  proof (cases e)
    case (Post h b c')
    with a have "st' = fst (post_mcp st h b c')" by (simp add: step_def)
    with a show ?thesis by (simp add: post_mcp_registry)
  next
    case (Get h)
    with a have "st' = st" by (simp add: step_def handleSessionRequest_state)
    with a show ?thesis by simp
  next
    case (Delete h)
    with a have "st' = st" by (simp add: step_def handleSessionRequest_state)
    with a show ?thesis by simp
  next
    case (Closed u)
    with a have "st' = transport_closed u st" by (simp add: step_def split: if_splits)
    with a show ?thesis
      by (auto simp: transport_closed_def onclose_def split: option.splits if_splits)
  next
    case (SessionInitialized u j)
    with a have g: "u < length (created st)" and eq: "st' = session_initialized u j st"
      by (simp_all add: step_def split: if_splits)
    from a eq have "((transports st)(j \<mapsto> u)) k = Some t" "transports st k \<noteq> Some t"
      by (simp_all add: session_initialized_def onsessioninitialized_def)
    then have kj: "k = j" "t = u" by (auto split: if_splits)
    with g eq SessionInitialized show ?thesis by (simp add: session_initialized_def)
  qed
  then show "e = SessionInitialized t k" and "sessionId (created st' ! t) = Some k" by simp_all
qed

text \<open>
  The callback of transport 0, fired with a UUID, on a state where the transport is still
  unconfirmed.
\<close>

theorem entry_inserted_only_on_confirmation_witness:
  "step \<lparr>transports = Map.empty, created = [\<lparr>sessionId = None\<rparr>]\<rparr>
        (SessionInitialized 0 ''123e4567-e89b-42d3-a456-426614174000'')
     = Some (session_initialized 0 ''123e4567-e89b-42d3-a456-426614174000''
               \<lparr>transports = Map.empty, created = [\<lparr>sessionId = None\<rparr>]\<rparr>)
   \<and> sessionId (created (session_initialized 0 ''123e4567-e89b-42d3-a456-426614174000''
               \<lparr>transports = Map.empty, created = [\<lparr>sessionId = None\<rparr>]\<rparr>) ! 0)
     = Some ''123e4567-e89b-42d3-a456-426614174000''
   \<and> transports (fst (post_mcp initial_state None True True)) = transports initial_state"
proof -
  let ?a = "''123e4567-e89b-42d3-a456-426614174000''"
  let ?st = "\<lparr>transports = (Map.empty :: registry), created = [\<lparr>sessionId = None\<rparr>]\<rparr>"
  let ?st' = "session_initialized 0 ?a ?st"
  have 1: "step ?st (SessionInitialized 0 ?a) = Some ?st'"
    using uuid_a by (simp add: step_def)
  have 2: "transports ?st' ?a = Some 0"
    by (simp add: session_initialized_def onsessioninitialized_def)
  have 3: "transports ?st ?a \<noteq> Some 0" by simp
  have 4: "\<not> truthy_str None" by (simp add: truthy_str_simps)
  from 1 2 3 4
    entry_inserted_only_on_confirmation[where st = ?st and e = "SessionInitialized 0 ?a"
      and st' = ?st' and k = ?a and t = 0]
    entry_inserted_only_on_confirmation[where st = initial_state and hdr = None and c = True]
  show ?thesis by blast
qed

text \<open>
  C7. In every state the server reaches from its start, each registry entry \<open>k \<mapsto> t\<close> was
  written by the completion callback of \<open>t\<close> with the generated id \<open>k\<close> (a UUID, the id the
  transport carries), never from a header value; no two transports carry the same id; and no
  transport is registered under two ids. The freshness of generated ids is the assumption on
  \<^verbatim>\<open>randomUUID\<close> written into \<open>step\<close>.
\<close>

theorem registry_keys_generated_unique:
  assumes "run evs initial_state = Some st"
  shows "(\<forall>k t. transports st k = Some t \<longrightarrow>
            SessionInitialized t k \<in> set evs \<and> is_uuid k \<and> t < length (created st)
            \<and> sessionId (created st ! t) = Some k)
     \<and> (\<forall>t1 t2 s. t1 < length (created st) \<and> t2 < length (created st)
            \<and> sessionId (created st ! t1) = Some s \<and> sessionId (created st ! t2) = Some s
          \<longrightarrow> t1 = t2)
     \<and> (\<forall>k1 k2 t. transports st k1 = Some t \<and> transports st k2 = Some t \<longrightarrow> k1 = k2)"
proof -
  from assms have inv: "registry_inv evs st" by (rule registry_inv_run)
  then have a: "\<forall>k t. transports st k = Some t \<longrightarrow>
            SessionInitialized t k \<in> set evs \<and> is_uuid k \<and> t < length (created st)
            \<and> sessionId (created st ! t) = Some k"
    and b: "\<forall>t1 t2 s. t1 < length (created st) \<and> t2 < length (created st)
            \<and> sessionId (created st ! t1) = Some s \<and> sessionId (created st ! t2) = Some s
          \<longrightarrow> t1 = t2"
    unfolding registry_inv_def by blast+
  have c: "\<forall>k1 k2 t. transports st k1 = Some t \<and> transports st k2 = Some t \<longrightarrow> k1 = k2"
  proof (intro allI impI)
    fix k1 k2 t assume "transports st k1 = Some t \<and> transports st k2 = Some t"
    with a have "sessionId (created st ! t) = Some k1" "sessionId (created st ! t) = Some k2"
      by blast+
    then show "k1 = k2" by simp
  qed
  from a b c show ?thesis by (intro conjI)
qed

text \<open>
  A run with two sessions, requests with a known id and with an unknown one, and the
  closure of the first session: the second session is still registered, under the UUID its
  transport carries.
\<close>

theorem registry_keys_generated_unique_witness:
  "\<exists>st. run [Post None True True,
              SessionInitialized 0 ''123e4567-e89b-42d3-a456-426614174000'',
              Post (Some ''123e4567-e89b-42d3-a456-426614174000'') False True,
              Post None True True,
              SessionInitialized 1 ''9b2f0c1e-7d4a-4c3b-8e21-0a1b2c3d4e5f'',
              Get (Some ''constructor''),
              Closed 0] initial_state = Some st
     \<and> transports st ''9b2f0c1e-7d4a-4c3b-8e21-0a1b2c3d4e5f'' = Some 1
     \<and> transports st ''123e4567-e89b-42d3-a456-426614174000'' = None
     \<and> is_uuid ''9b2f0c1e-7d4a-4c3b-8e21-0a1b2c3d4e5f''
     \<and> 1 < length (created st)
     \<and> sessionId (created st ! 1) = Some ''9b2f0c1e-7d4a-4c3b-8e21-0a1b2c3d4e5f''"
proof -
  let ?a = "''123e4567-e89b-42d3-a456-426614174000''"
  let ?b = "''9b2f0c1e-7d4a-4c3b-8e21-0a1b2c3d4e5f''"
  let ?evs = "[Post None True True, SessionInitialized 0 ?a, Post (Some ?a) False True,
               Post None True True, SessionInitialized 1 ?b, Get (Some ''constructor''), Closed 0]"
  have "\<exists>st. run ?evs initial_state = Some st \<and> transports st ?b = Some 1
          \<and> transports st ?a = None"
    using uuid_a uuid_b
    by (simp add: step_def post_mcp_def handleSessionRequest_def js_get_def truthy_str_simps
        initial_state_def session_initialized_def onsessioninitialized_def
        transport_closed_def onclose_def object_prototype_keys_def Let_def)
  then obtain st where r: "run ?evs initial_state = Some st"
    and e: "transports st ?b = Some 1" and g: "transports st ?a = None" by blast
  from registry_keys_generated_unique[OF r] e
  have "is_uuid ?b \<and> 1 < length (created st) \<and> sessionId (created st ! 1) = Some ?b"
    by blast
  with r e g show ?thesis by blast
qed

text \<open>
  C8. If a transport closes while its session id is still unset, the close handler leaves
  the state, and with it the registry, unchanged; in particular this holds for the transport
  just constructed by the creation branch.
\<close>

theorem close_before_confirmation:
  "(t < length (created st) \<and> sessionId (created st ! t) = None \<longrightarrow>
      transport_closed t st = st \<and> step st (Closed t) = Some st)
   \<and> (\<not> truthy_str hdr \<longrightarrow>
        transport_closed (length (created st)) (fst (post_mcp st hdr True c))
          = fst (post_mcp st hdr True c)
        \<and> transports (transport_closed (length (created st)) (fst (post_mcp st hdr True c)))
          = transports st)"
proof (intro conjI impI)
  assume a: "t < length (created st) \<and> sessionId (created st ! t) = None"
  then show "transport_closed t st = st" by (simp add: transport_closed_unset)
  with a show "step st (Closed t) = Some st" by (simp add: step_def)
next
  assume h: "\<not> truthy_str hdr"
  let ?st' = "fst (post_mcp st hdr True c)"
  from h have "?st' = st\<lparr>created := created st @ [\<lparr>sessionId = None\<rparr>]\<rparr>"
    by (simp add: post_mcp_create)
  then have "sessionId (created ?st' ! length (created st)) = None" by simp
  then show c: "transport_closed (length (created st)) ?st' = ?st'"
    by (rule transport_closed_unset)
  show "transports (transport_closed (length (created st)) ?st') = transports st"
    by (simp only: c post_mcp_registry)
qed

text \<open>
  Closing the transport constructed by the first initialization request, before it
  confirmed an id.
\<close>

theorem close_before_confirmation_witness:
  "transport_closed 0 (fst (post_mcp initial_state None True True))
     = fst (post_mcp initial_state None True True)
   \<and> step \<lparr>transports = Map.empty, created = [\<lparr>sessionId = None\<rparr>]\<rparr> (Closed 0)
     = Some \<lparr>transports = Map.empty, created = [\<lparr>sessionId = None\<rparr>]\<rparr>"
proof -
  let ?st = "\<lparr>transports = (Map.empty :: registry), created = [\<lparr>sessionId = None\<rparr>]\<rparr>"
  have 1: "0 < length (created ?st) \<and> sessionId (created ?st ! 0) = None" by simp
  have 2: "\<not> truthy_str None" by (simp add: truthy_str_simps)
  have 3: "length (created initial_state) = 0" by (simp add: initial_state_def)
  from 1 2 3 close_before_confirmation[where st = ?st and t = 0]
    close_before_confirmation[where st = initial_state and hdr = None and c = True]
  show ?thesis by simp
qed

text \<open>
  C9. A header whose value is the empty string is handled by the POST handler and by the
  GET/DELETE handler exactly as a missing header: with an initialization body the POST
  handler constructs a new transport (it neither reuses nor rejects), and the GET/DELETE
  handler answers with the plain 400.
\<close>

theorem empty_header_as_absent:
  "post_mcp st (Some []) b c = post_mcp st None b c
   \<and> handleSessionRequest st (Some []) = handleSessionRequest st None
   \<and> fst (post_mcp st (Some []) True c) = st\<lparr>created := created st @ [\<lparr>sessionId = None\<rparr>]\<rparr>
   \<and> snd (post_mcp st (Some []) True True) = HandleRequest (length (created st))
   \<and> handleSessionRequest st (Some []) = (st, Responded (StatusSend 400 session_reject_message))"
  by (simp add: post_mcp_def handleSessionRequest_def truthy_str_simps Let_def)

text \<open>
  C10. A GET on \<^verbatim>\<open>/health\<close> answers with status 200 and a body with the fields \<^verbatim>\<open>status\<close>,
  \<^verbatim>\<open>serverTime\<close> (the result of \<^verbatim>\<open>toISOString\<close> on the current date), \<^verbatim>\<open>networkAddresses\<close> (the
  addresses of the interfaces of family IPv4 that are not internal, in order), \<^verbatim>\<open>hostname\<close>
  and \<^verbatim>\<open>port\<close>. The state is returned as it was, and the response is the same for every
  state of the session registry.
\<close>

theorem health_response:
  "health port toISOString h st =
     (st, Responded (StatusJson 200
        (JObj [(''status'', JStr ''ok''),
               (''serverTime'', JStr (toISOString (now h))),
               (''networkAddresses'',
                  JArr (map JStr (map address
                    (filter (\<lambda>i. family i = ''IPv4'' \<and> \<not> internal i)
                       (concat (map (\<lambda>(ifname, interfaces).
                                       case interfaces of None \<Rightarrow> [] | Some ifaces \<Rightarrow> ifaces)
                                    (networkInterfaces h))))))),
               (''hostname'', JStr (hostname h)),
               (''port'', JNum port)])))
   \<and> snd (health port toISOString h st) = snd (health port toISOString h st')"
  by (simp add: health_def collect_addresses_eq)

end
